theory Spec2Isabelle
  imports Complex_Main "HOL-Library.Sublist"
begin

section \<open>Data model (phisherman-frontend/src/types/api.ts)\<close>

text \<open>
  The TypeScript interfaces become records. Several interfaces share field names
  (\<open>url\<close>, \<open>score\<close>, \<open>labels\<close>, ...), so every field carries a one-letter prefix of its
  interface: \<open>a_\<close> for AnalyzerResult, \<open>r_\<close> for AnalysisResponse, \<open>e_\<close> for the body of
  ApiError and \<open>h_\<close> for HistoryEntry. A TypeScript \<open>number\<close> is a \<open>real\<close>, an optional
  field an \<open>option\<close>, and \<open>Record<string, unknown>\<close> an association list whose values
  are kept as text.
\<close>

record AnalyzerResult =
  a_name :: string
  a_score :: real
  a_confidence :: real
  a_labels :: "string list"
  a_evidence :: "(string \<times> string) list"
  a_execution_time_ms :: real
  a_error :: "string option"

record AnalysisResponse =
  r_url :: string
  r_malicious :: bool
  r_score :: real
  r_confidence :: real
  r_labels :: "string list"
  r_evidence :: "(string \<times> string) list"
  r_analyzers :: "AnalyzerResult list"
  r_analysis_id :: "string option"
  r_timestamp :: string
  r_processing_time_ms :: real
  r_cached :: bool
  r_version :: "string option"

record ApiError =
  e_code :: int
  e_message :: string
  e_type :: string

record HistoryEntry =
  h_id :: string
  h_url :: string
  h_score :: real
  h_malicious :: bool
  h_timestamp :: string
  h_labels :: "string list"

section \<open>The history store (phisherman-frontend/src/hooks/useHistory.ts)\<close>

text \<open>
  The hook keeps the list \<open>history\<close> in React state and mirrors it into localStorage under
  one key. The state of the model is both: \<open>history\<close>, and \<open>stored\<close>, the value under the
  key (\<open>None\<close> when the key is absent). Every localStorage call sits in a try/catch that
  only logs; the flag \<open>ok\<close> of each operation says whether the call went through.
\<close>

record hstate =
  history :: "HistoryEntry list"
  stored :: "HistoryEntry list option"

definition MAX_HISTORY_ITEMS :: nat where
  "MAX_HISTORY_ITEMS = 20"

definition saveHistory :: "bool \<Rightarrow> HistoryEntry list \<Rightarrow> HistoryEntry list option \<Rightarrow> HistoryEntry list option" where
  "saveHistory ok entries storage = (if ok then Some entries else storage)"

text \<open>
  \<open>response.analysis_id || crypto.randomUUID()\<close>: the identifier of the response unless it
  is undefined or the empty string; \<open>uuid\<close> is what \<open>crypto.randomUUID()\<close> returns.
\<close>

definition newEntry :: "string \<Rightarrow> AnalysisResponse \<Rightarrow> HistoryEntry" where
  "newEntry uuid response =
     \<lparr> h_id = (case r_analysis_id response of
                 None \<Rightarrow> uuid
               | Some i \<Rightarrow> if i = [] then uuid else i),
       h_url = r_url response,
       h_score = r_score response,
       h_malicious = r_malicious response,
       h_timestamp = r_timestamp response,
       h_labels = take 3 (r_labels response) \<rparr>"

definition addEntry :: "bool \<Rightarrow> string \<Rightarrow> AnalysisResponse \<Rightarrow> hstate \<Rightarrow> hstate" where
  "addEntry ok uuid response st =
     (let new = newEntry uuid response;
          filtered = filter (\<lambda>entry. h_url entry \<noteq> h_url new) (history st);
          updated = take MAX_HISTORY_ITEMS (new # filtered)
      in \<lparr> history = updated, stored = saveHistory ok updated (stored st) \<rparr>)"

definition removeEntry :: "bool \<Rightarrow> string \<Rightarrow> hstate \<Rightarrow> hstate" where
  "removeEntry ok ident st =
     (let updated = filter (\<lambda>entry. h_id entry \<noteq> ident) (history st)
      in \<lparr> history = updated, stored = saveHistory ok updated (stored st) \<rparr>)"

definition clearHistory :: "bool \<Rightarrow> hstate \<Rightarrow> hstate" where
  "clearHistory ok st = \<lparr> history = [], stored = (if ok then None else stored st) \<rparr>"

text \<open>The invariant of the store: at most 20 entries, no URL twice.\<close>

definition history_inv :: "HistoryEntry list \<Rightarrow> bool" where
  "history_inv h \<longleftrightarrow> length h \<le> 20 \<and> distinct (map h_url h)"

section \<open>The page (the Home component)\<close>

text \<open>
  The page holds \<open>data\<close> of the analyze hook and the history store. Its effect runs
  whenever \<open>data\<close> changes: \<open>if (data && !data.cached) addEntry(data)\<close>. The buttons of
  the history list call \<open>removeEntry\<close> and \<open>clearHistory\<close>. An event carries what the
  environment decides: the flag of the localStorage call and the fresh UUID.
\<close>

definition home_effect :: "bool \<Rightarrow> string \<Rightarrow> AnalysisResponse option \<Rightarrow> hstate \<Rightarrow> hstate" where
  "home_effect ok uuid data st =
     (case data of
        None \<Rightarrow> st
      | Some d \<Rightarrow> if \<not> r_cached d then addEntry ok uuid d st else st)"

datatype event =
    DataChanged bool string "AnalysisResponse option"
  | RemoveClicked bool string
  | ClearClicked bool

fun home_step :: "event \<Rightarrow> hstate \<Rightarrow> hstate" where
  "home_step (DataChanged ok uuid data) st = home_effect ok uuid data st"
| "home_step (RemoveClicked ok ident) st = removeEntry ok ident st"
| "home_step (ClearClicked ok) st = clearHistory ok st"

fun home_run :: "event list \<Rightarrow> hstate \<Rightarrow> hstate" where
  "home_run [] st = st"
| "home_run (ev # evs) st = home_run evs (home_step ev st)"

section \<open>Rendering of a result (SearchResults.tsx, History.tsx)\<close>


datatype score_icon = Siren | Warning | Check | Shield


definition getScoreIcon :: "real \<Rightarrow> score_icon" where
  "getScoreIcon s =
     (if s \<ge> 70 then Siren else if s \<ge> 40 then Warning else if s \<ge> 0 then Check else Shield)"



section \<open>The analyze hook (phisherman-frontend/src/hooks/useAnalyze.ts)\<close>

text \<open>
  \<open>analyze\<close> posts the URL and settles the state from what \<open>fetch\<close> gives. The model
  takes the outcome of the request as a value: a response that is not \<open>ok\<close>, with its
  body read as an ApiError; a response that is \<open>ok\<close>, with its body read as an
  AnalysisResponse; or an exception thrown inside the \<open>try\<close> block (by \<open>fetch\<close>, by
  \<open>response.json()\<close> or by the access \<open>errorData.error.message\<close>), with its message
  when the thrown value is an \<open>Error\<close>.
\<close>

datatype fetched = NotOk ApiError | Ok AnalysisResponse | Threw "string option"

record UseAnalyzeState =
  data :: "AnalysisResponse option"
  loading :: bool
  error :: "string option"

definition failed :: "string \<Rightarrow> UseAnalyzeState" where
  "failed msg = \<lparr> data = None, loading = False, error = Some msg \<rparr>"

text \<open>The default message \<open>Error en el analisis\<close>, whose fifteenth character is a-acute (U+00E1).\<close>

definition default_message :: string where
  "default_message = ''Error en el an'' @ [CHR 0xE1] @ ''lisis''"

definition analyze :: "fetched \<Rightarrow> UseAnalyzeState" where
  "analyze f =
     (case f of
        NotOk errorData \<Rightarrow>
          failed (if e_message errorData = [] then default_message else e_message errorData)
      | Ok d \<Rightarrow> \<lparr> data = Some d, loading = False, error = None \<rparr>
      | Threw (Some msg) \<Rightarrow> failed msg
      | Threw None \<Rightarrow> failed ''Error desconocido'')"

section \<open>The analysis pipeline behind \<open>/api/v1/analyze\<close>\<close>

text \<open>
  The backend that answers the request (analyzers, orchestrator, scorer, verdict cache
  and request surface) is not among the source files; only its response types, its
  documentation and the frontend that calls it are. Each definition of this section is
  written from the specification and says so. Time is counted in seconds, as a \<open>nat\<close>;
  scores and weights are \<open>real\<close>, so rounding of floating-point numbers is not modelled;
  the analyzers of one run are invoked one after the other, which gives the same list of
  results as the concurrent fan-out that waits for all of them.
\<close>

subsection \<open>Indicators\<close>

text \<open>
  Modelled from the spec: the severity of an Indicator (section 3; the Indicator Store is
  missing). DATABASE-SCHEMA.md lists the four values.
\<close>

datatype severity = SevLow | SevMedium | SevHigh | SevCritical

text \<open>
  Modelled from the spec: the Indicator of section 3, "type, value, threat type, severity,
  source feed name"; the dates and the metadata play no part here.
\<close>

record Indicator =
  i_type :: string
  i_value :: string
  i_threat_type :: string
  i_severity :: severity
  i_source :: string

text \<open>
  Modelled from the spec: "a high-severity indicator" of section 4.2, read as a severity of
  high or above.
\<close>

definition high_severity :: "severity \<Rightarrow> bool" where
  "high_severity sev \<longleftrightarrow> sev = SevHigh \<or> sev = SevCritical"

subsection \<open>Analyzers and the orchestrator\<close>

text \<open>
  Modelled from the spec: what one invocation of an analyzer can end in (section 4.1: it
  returns a result, "raises, times out, or returns malformed output"); the analyzers are
  missing.
\<close>

datatype outcome = Returned AnalyzerResult | Raised string | TimedOut | Malformed

text \<open>
  Modelled from the spec: the capability contract of section 4.2, \<open>name\<close> and
  \<open>analyze(url)\<close>. The default \<open>weight\<close> of the contract is taken as merged into the weight
  mapping of the configuration below.
\<close>

record analyzer =
  an_name :: string
  an_analyze :: "string \<Rightarrow> outcome"

text \<open>
  Modelled from the spec: the record the orchestrator writes for a failed analyzer, "an
  AnalyzerResult with score 0, confidence 0, and the error populated" (section 4.1).
\<close>

definition error_result :: "string \<Rightarrow> string \<Rightarrow> AnalyzerResult" where
  "error_result n msg =
     \<lparr> a_name = n, a_score = 0, a_confidence = 0, a_labels = [], a_evidence = [],
       a_execution_time_ms = 0, a_error = Some msg \<rparr>"

text \<open>
  Modelled from the spec: one guarded invocation, with its own timeout (section 4.1); a
  failure of any kind becomes the error record of that analyzer.
\<close>

definition invoke :: "string \<Rightarrow> analyzer \<Rightarrow> AnalyzerResult" where
  "invoke u a =
     (case an_analyze a u of
        Returned r \<Rightarrow> r
      | Raised msg \<Rightarrow> error_result (an_name a) msg
      | TimedOut \<Rightarrow> error_result (an_name a) ''timeout''
      | Malformed \<Rightarrow> error_result (an_name a) ''malformed output'')"

text \<open>
  Modelled from the spec: the fan-out of section 4.1, which hands the normalized URL to
  every enabled analyzer and collects one result from each.
\<close>

definition fan_out :: "string \<Rightarrow> analyzer list \<Rightarrow> AnalyzerResult list" where
  "fan_out u enabled = map (invoke u) enabled"

subsection \<open>The scorer\<close>

text \<open>
  Modelled from the spec: the configuration surface of the Scorer (section 6), "a weight
  mapping (analyzer name to float weight) and a threshold triple", together with what
  section 4.3 leaves to the configuration: the neutral threshold and the bonus of the
  consensus adjustment, the formula of the confidence, the labels derived from the
  thresholds, and the feed sources that are trusted.
\<close>

record config =
  c_weights :: "string \<Rightarrow> real"
  c_low :: real
  c_medium :: real
  c_high :: real
  c_neutral :: real
  c_bonus :: real
  c_confidence :: "AnalyzerResult list \<Rightarrow> real"
  c_threshold_labels :: "real \<Rightarrow> string list"
  c_trusted :: "string list"

text \<open>
  Modelled from the spec: "analyzers whose result is an error are excluded from the
  weighted sum" (section 4.3).
\<close>

definition usable :: "AnalyzerResult list \<Rightarrow> AnalyzerResult list" where
  "usable results = filter (\<lambda>r. a_error r = None) results"

text \<open>
  Modelled from the spec: the "weighted sum of each analyzer's score using its configured
  weight" (section 4.3).
\<close>

definition weighted_sum :: "config \<Rightarrow> AnalyzerResult list \<Rightarrow> real" where
  "weighted_sum cfg results =
     sum_list (map (\<lambda>r. c_weights cfg (a_name r) * a_score r) (usable results))"

text \<open>
  Modelled from the spec: the consensus adjustment of section 4.3. When more than half of
  the analyzers without error are above the neutral threshold the score is nudged up by
  the bonus, when more than half are below it the score is nudged down by the bonus.
\<close>

definition consensus :: "config \<Rightarrow> AnalyzerResult list \<Rightarrow> real" where
  "consensus cfg results =
     (let voters = usable results;
          above = filter (\<lambda>r. a_score r > c_neutral cfg) voters;
          below = filter (\<lambda>r. a_score r < c_neutral cfg) voters
      in if 2 * length above > length voters then c_bonus cfg
         else if 2 * length below > length voters then - c_bonus cfg
         else 0)"

text \<open>
  Modelled from the spec: the aggregate score, the weighted sum "after" which "a consensus
  adjustment is applied" (section 4.3).
\<close>

definition aggregate :: "config \<Rightarrow> AnalyzerResult list \<Rightarrow> real" where
  "aggregate cfg results = weighted_sum cfg results + consensus cfg results"

text \<open>
  Modelled from the spec: the risk level, the final score "bucketed against configured
  thresholds (low/medium/high)" (section 4.3), with the three levels that the spec and
  QUICK_START_ENHANCED.md name.
\<close>

datatype risk_level = Low | Medium | High

text \<open>
  Modelled from the spec: the bucketing itself (section 4.3; the Scorer is missing). A
  score at or above the high threshold is high, one at or above the medium threshold is
  medium, and every other score is low, also under the low threshold: section 8 puts the
  benign \<open>https://example.com\<close> in the low bucket, for which README.md shows the score 15.5
  beside the low threshold 25.
\<close>

definition riskLevel :: "config \<Rightarrow> real \<Rightarrow> risk_level" where
  "riskLevel cfg s =
     (if s \<ge> c_high cfg then High
      else if s \<ge> c_medium cfg then Medium
      else Low)"

text \<open>
  Modelled from the spec: the contract of the Scorer,
  \<open>score(results) -> {score, confidence, labels, riskLevel}\<close>, with the labels "the union
  of all analyzer labels plus any threshold-derived label" (section 4.3).
\<close>

record Scoring =
  s_score :: real
  s_confidence :: real
  s_labels :: "string list"
  s_riskLevel :: risk_level

text \<open>
  Modelled from the spec: \<open>score\<close> of section 4.3 (the Scorer is missing), which puts
  the aggregate score, the confidence, the labels and the risk level together.
\<close>

definition score :: "config \<Rightarrow> AnalyzerResult list \<Rightarrow> Scoring" where
  "score cfg results =
     (let s = aggregate cfg results
      in \<lparr> s_score = s,
           s_confidence = c_confidence cfg results,
           s_labels = remdups (concat (map a_labels results) @ c_threshold_labels cfg s),
           s_riskLevel = riskLevel cfg s \<rparr>)"

text \<open>
  Modelled from the spec: the feed-lookup short-circuit of section 4.2, the "presence of a
  high-severity indicator from a trusted source" among the indicators that the feed-lookup
  analyzer matched.
\<close>

definition short_circuit :: "config \<Rightarrow> Indicator list \<Rightarrow> bool" where
  "short_circuit cfg matched =
     list_ex (\<lambda>i. high_severity (i_severity i) \<and> i_source i \<in> set (c_trusted cfg)) matched"

text \<open>
  Modelled from the spec: the \<open>malicious\<close> boolean, "true at or above the medium threshold
  by default, overridable by a feed-lookup short-circuit" (section 4.3).
\<close>

definition malicious :: "config \<Rightarrow> real \<Rightarrow> Indicator list \<Rightarrow> bool" where
  "malicious cfg s matched \<longleftrightarrow> s \<ge> c_medium cfg \<or> short_circuit cfg matched"

subsection \<open>One run of the pipeline\<close>

text \<open>
  Modelled from the spec: the one failure of a run, an input error (section 7 (a)). It
  carries the internal detail of the rejection, the text of the exception raised by the
  validation.
\<close>

datatype failure = InputError string

text \<open>
  Modelled from the spec: what a deployment fixes for the pipeline. \<open>p_normalize\<close> is the
  validation and normalization of section 3 (\<open>Inr\<close> the normalized URL, \<open>Inl\<close> the text of
  the exception for a string that is no http/https URL), \<open>p_fingerprint\<close> the hash that
  gives the cache key, \<open>p_ttl\<close> the time to live of a verdict, \<open>p_enabled\<close> the enabled
  analyzers, \<open>p_lookup\<close> the indicators that the feed-lookup analyzer matches for a
  normalized URL (the lookup surface of section 6).
\<close>

record pipeline =
  p_normalize :: "string \<Rightarrow> string + string"
  p_fingerprint :: "string \<Rightarrow> string"
  p_ttl :: nat
  p_enabled :: "analyzer list"
  p_lookup :: "string \<Rightarrow> Indicator list"
  p_config :: config
  p_version :: string

text \<open>
  Modelled from the spec: the fields of an AnalysisResult that the request gives and not
  the analysis: "an analysis identifier, a timestamp, total processing time" (section 3).
\<close>

record stamp =
  st_analysis_id :: string
  st_timestamp :: string
  st_processing_time_ms :: real

text \<open>
  Modelled from the spec: \<open>run(url) -> AnalysisResult\<close> of section 4.1 followed by the
  Scorer of section 4.3. It "fails only if the URL fails normalization/validation
  (rejected before any analyzer runs)".
\<close>

definition run :: "pipeline \<Rightarrow> stamp \<Rightarrow> string \<Rightarrow> failure + AnalysisResponse" where
  "run p stp url =
     (case p_normalize p url of
        Inl detail \<Rightarrow> Inl (InputError detail)
      | Inr u \<Rightarrow>
          (let results = fan_out u (p_enabled p);
               sc = score (p_config p) results
           in Inr \<lparr> r_url = url,
                    r_malicious = malicious (p_config p) (s_score sc) (p_lookup p u),
                    r_score = s_score sc,
                    r_confidence = s_confidence sc,
                    r_labels = s_labels sc,
                    r_evidence = concat (map a_evidence results),
                    r_analyzers = results,
                    r_analysis_id = Some (st_analysis_id stp),
                    r_timestamp = st_timestamp stp,
                    r_processing_time_ms = st_processing_time_ms stp,
                    r_cached = False,
                    r_version = Some (p_version p) \<rparr>))"

subsection \<open>The verdict cache\<close>

text \<open>
  Modelled from the spec: the Verdict of section 3, "URL fingerprint, the
  score/confidence/labels subset of an AnalysisResult, creation time, expiry time, and a
  hit counter"; DATABASE-SCHEMA.md adds \<open>is_malicious\<close>.
\<close>

record Verdict =
  v_fingerprint :: string
  v_malicious :: bool
  v_score :: real
  v_confidence :: real
  v_labels :: "string list"
  v_created :: nat
  v_expires :: nat
  v_hit_count :: nat

text \<open>
  Modelled from the spec: the state of the backend, the verdicts by fingerprint and a
  counter of the executions of the pipeline (the "counter on a mocked analyzer" of
  section 8). The store is taken to be available.
\<close>

record backend =
  verdicts :: "string \<rightharpoonup> Verdict"
  pipeline_runs :: nat

text \<open>
  Modelled from the spec: the verdict written after a run, expiring one TTL after its
  creation (section 4.4).
\<close>

definition to_verdict :: "string \<Rightarrow> nat \<Rightarrow> nat \<Rightarrow> AnalysisResponse \<Rightarrow> Verdict" where
  "to_verdict key now ttl r =
     \<lparr> v_fingerprint = key, v_malicious = r_malicious r, v_score = r_score r,
       v_confidence = r_confidence r, v_labels = r_labels r,
       v_created = now, v_expires = now + ttl, v_hit_count = 0 \<rparr>"

text \<open>
  Modelled from the spec: the answer on a hit, "the cached score/confidence/labels" with
  \<open>cached=true\<close> and no per-analyzer detail (section 4.4).
\<close>

definition from_verdict :: "pipeline \<Rightarrow> stamp \<Rightarrow> string \<Rightarrow> Verdict \<Rightarrow> AnalysisResponse" where
  "from_verdict p stp url v =
     \<lparr> r_url = url, r_malicious = v_malicious v, r_score = v_score v,
       r_confidence = v_confidence v, r_labels = v_labels v, r_evidence = [],
       r_analyzers = [], r_analysis_id = Some (st_analysis_id stp),
       r_timestamp = st_timestamp stp,
       r_processing_time_ms = st_processing_time_ms stp,
       r_cached = True, r_version = Some (p_version p) \<rparr>"

text \<open>
  Modelled from the spec: the miss of section 4.4, one execution of the pipeline followed
  by the write of the verdict.
\<close>

definition compute :: "pipeline \<Rightarrow> stamp \<Rightarrow> nat \<Rightarrow> backend \<Rightarrow> string \<Rightarrow> string
    \<Rightarrow> (failure + AnalysisResponse) \<times> backend" where
  "compute p stp now b url key =
     (case run p stp url of
        Inl f \<Rightarrow> (Inl f, b)
      | Inr r \<Rightarrow>
          (Inr r, \<lparr> verdicts = (verdicts b)(key \<mapsto> to_verdict key now (p_ttl p) r),
                    pipeline_runs = pipeline_runs b + 1 \<rparr>))"

text \<open>
  Modelled from the spec: \<open>getOrCompute(url)\<close> of section 4.4, at the time \<open>now\<close>. The
  key is the hash of the normalized URL; a hit on an entry that has not expired answers
  from the verdict and increments its hit counter; an expired entry is a miss.
\<close>

definition getOrCompute :: "pipeline \<Rightarrow> stamp \<Rightarrow> nat \<Rightarrow> backend \<Rightarrow> string
    \<Rightarrow> (failure + AnalysisResponse) \<times> backend" where
  "getOrCompute p stp now b url =
     (case p_normalize p url of
        Inl detail \<Rightarrow> (Inl (InputError detail), b)
      | Inr u \<Rightarrow>
          (let key = p_fingerprint p u
           in case verdicts b key of
                None \<Rightarrow> compute p stp now b url key
              | Some v \<Rightarrow>
                  if now < v_expires v
                  then (Inr (from_verdict p stp url v),
                        b\<lparr> verdicts := (verdicts b)(key \<mapsto> v\<lparr> v_hit_count := v_hit_count v + 1 \<rparr>) \<rparr>)
                  else compute p stp now b url key))"

subsection \<open>The request surface\<close>

text \<open>
  Modelled from the spec: the error that the caller sees, "only a coarse error
  kind/message" (section 7), in the shape of the ApiError of api.ts. An input error is a
  client error; 400 stands for the 4xx status of the request surface.
\<close>

definition api_error_of :: "failure \<Rightarrow> ApiError" where
  "api_error_of f =
     (case f of
        InputError detail \<Rightarrow>
          \<lparr> e_code = 400, e_message = ''Invalid URL'', e_type = ''validation_error'' \<rparr>)"

text \<open>
  Modelled from the spec: the request surface of section 6, which "accepts one URL
  string" and returns the AnalysisResult or a validation failure, as the frontend
  receives it.
\<close>

definition analyze_endpoint :: "pipeline \<Rightarrow> stamp \<Rightarrow> nat \<Rightarrow> backend \<Rightarrow> string
    \<Rightarrow> fetched \<times> backend" where
  "analyze_endpoint p stp now b url =
     (case getOrCompute p stp now b url of
        (Inl f, b') \<Rightarrow> (NotOk (api_error_of f), b')
      | (Inr r, b') \<Rightarrow> (Ok r, b'))"

section \<open>Sample values\<close>

definition sample_response :: "string \<Rightarrow> string option \<Rightarrow> bool \<Rightarrow> AnalysisResponse" where
  "sample_response u i c =
     \<lparr> r_url = u, r_malicious = False, r_score = 15.5, r_confidence = 0.85,
       r_labels = [''established_domain'', ''legitimate_tld''], r_evidence = [],
       r_analyzers = [], r_analysis_id = i, r_timestamp = ''2024-01-01T12:00:00Z'',
       r_processing_time_ms = 245.6, r_cached = c, r_version = Some ''0.1.0'' \<rparr>"

definition sample_state :: hstate where
  "sample_state =
     \<lparr> history = [newEntry ''u1'' (sample_response ''https://a.example'' (Some ''id-a'') False),
                  newEntry ''u2'' (sample_response ''https://b.example'' None False)],
       stored = None \<rparr>"

definition sample_result :: "string \<Rightarrow> real \<Rightarrow> AnalyzerResult" where
  "sample_result n s =
     \<lparr> a_name = n, a_score = s, a_confidence = 0.9, a_labels = [], a_evidence = [],
       a_execution_time_ms = 12, a_error = None \<rparr>"

text \<open>The weights and thresholds that README.md shows for \<open>configs/weights.yaml\<close>.\<close>

definition sample_config :: config where
  "sample_config =
     \<lparr> c_weights = (\<lambda>n. if n = ''blacklist_feeds'' then 0.9
                        else if n = ''dns_resolver'' then 0.8
                        else if n = ''rdap_whois'' then 0.7
                        else if n = ''url_heuristics'' then 0.6
                        else if n = ''tls_probe'' then 0.4
                        else 0),
       c_low = 25, c_medium = 50, c_high = 75, c_neutral = 50, c_bonus = 5,
       c_confidence = (\<lambda>results. 0.85),
       c_threshold_labels = (\<lambda>s. []),
       c_trusted = [''phishtank'', ''openphish'', ''urlhaus''] \<rparr>"

definition sample_analyzers :: "analyzer list" where
  "sample_analyzers =
     [\<lparr> an_name = ''dns_resolver'',
        an_analyze = (\<lambda>u. Returned (sample_result ''dns_resolver'' 20)) \<rparr>,
      \<lparr> an_name = ''rdap_whois'', an_analyze = (\<lambda>u. TimedOut) \<rparr>,
      \<lparr> an_name = ''url_heuristics'', an_analyze = (\<lambda>u. Raised ''boom'') \<rparr>]"

definition sample_normalize :: "string \<Rightarrow> string + string" where
  "sample_normalize url =
     (if take 7 url = ''http://'' \<or> take 8 url = ''https://'' then Inr url
      else Inl ''ValueError: not an http(s) URL'')"

definition sample_indicator :: Indicator where
  "sample_indicator =
     \<lparr> i_type = ''url'', i_value = ''http://bad.example'', i_threat_type = ''phishing'',
       i_severity = SevHigh, i_source = ''phishtank'' \<rparr>"

definition sample_pipeline :: pipeline where
  "sample_pipeline =
     \<lparr> p_normalize = sample_normalize, p_fingerprint = (\<lambda>u. u), p_ttl = 86400,
       p_enabled = sample_analyzers,
       p_lookup = (\<lambda>u. if u = ''http://bad.example'' then [sample_indicator] else []),
       p_config = sample_config, p_version = ''0.1.0'' \<rparr>"

definition sample_stamp :: stamp where
  "sample_stamp =
     \<lparr> st_analysis_id = ''550e8400'', st_timestamp = ''2024-01-01T12:00:00Z'',
       st_processing_time_ms = 245.6 \<rparr>"

definition empty_backend :: backend where
  "empty_backend = \<lparr> verdicts = Map.empty, pipeline_runs = 0 \<rparr>"


section \<open>Properties of the history store\<close>

lemma distinct_urls_filter:
  "distinct (map h_url h) \<Longrightarrow> distinct (map h_url (filter P h))"
  by (simp add: distinct_map_filter)

lemma addEntry_history:
  "history (addEntry ok uuid response st) =
     newEntry uuid response #
       take 19 (filter (\<lambda>entry. h_url entry \<noteq> h_url (newEntry uuid response)) (history st))"
  by (simp add: addEntry_def Let_def MAX_HISTORY_ITEMS_def)

lemma removeEntry_history:
  "history (removeEntry ok ident st) = filter (\<lambda>entry. h_id entry \<noteq> ident) (history st)"
  by (simp add: removeEntry_def Let_def)

lemma addEntry_distinct:
  assumes "distinct (map h_url (history st))"
  shows "distinct (map h_url (history (addEntry ok uuid response st)))"
proof -
  let ?new = "newEntry uuid response"
  let ?f = "filter (\<lambda>entry. h_url entry \<noteq> h_url ?new) (history st)"
  have d: "distinct (map h_url ?f)"
    using assms by (rule distinct_urls_filter)
  have "h_url ?new \<notin> set (map h_url ?f)"
    by auto
  moreover have "set (map h_url (take 19 ?f)) \<subseteq> set (map h_url ?f)"
    by (metis set_take_subset take_map)
  ultimately have "h_url ?new \<notin> set (map h_url (take 19 ?f))"
    by blast
  moreover have "distinct (map h_url (take 19 ?f))"
    using d by (simp add: take_map [symmetric])
  ultimately show ?thesis
    by (simp add: addEntry_history)
qed

text \<open>
  C8. Each operation of the history store keeps the invariant "at most 20 entries, with
  pairwise distinct URLs", and \<open>addEntry\<close> puts the new entry first.
\<close>

theorem history_ops_preserve_inv:
  assumes "history_inv (history st)"
  shows "history_inv (history (addEntry ok uuid response st))
       \<and> (\<exists>rest. history (addEntry ok uuid response st) = newEntry uuid response # rest)
       \<and> history_inv (history (removeEntry ok' ident st))
       \<and> history_inv (history (clearHistory ok'' st))"
proof -
  from assms have len: "length (history st) \<le> 20" and dis: "distinct (map h_url (history st))"
    by (simp_all add: history_inv_def)
  have "length (history (addEntry ok uuid response st)) \<le> 20"
    by (simp add: addEntry_history)
  then have a: "history_inv (history (addEntry ok uuid response st))"
    using addEntry_distinct [OF dis] by (simp add: history_inv_def)
  have b: "\<exists>rest. history (addEntry ok uuid response st) = newEntry uuid response # rest"
    by (simp add: addEntry_history)
  have "length (filter (\<lambda>entry. h_id entry \<noteq> ident) (history st)) \<le> length (history st)"
    by (rule length_filter_le)
  with len have "length (filter (\<lambda>entry. h_id entry \<noteq> ident) (history st)) \<le> 20"
    by (rule order_trans [rotated])
  then have c: "history_inv (history (removeEntry ok' ident st))"
    using distinct_urls_filter [OF dis] by (simp add: history_inv_def removeEntry_history)
  have d: "history_inv (history (clearHistory ok'' st))"
    by (simp add: clearHistory_def history_inv_def)
  from a b c d show ?thesis by blast
qed

theorem history_ops_preserve_inv_witness:
  "history_inv (history sample_state)
   \<and> history_inv (history (addEntry True ''u3''
         (sample_response ''https://b.example'' (Some ''id-c'') False) sample_state))
   \<and> history_inv (history (removeEntry True ''id-a'' sample_state))
   \<and> history_inv (history (clearHistory False sample_state))"
proof -
  have h: "history_inv (history sample_state)"
    by (simp add: history_inv_def sample_state_def newEntry_def sample_response_def)
  show ?thesis
    using h history_ops_preserve_inv [OF h, of True "''u3''"
        "sample_response ''https://b.example'' (Some ''id-c'') False" True "''id-a''" False]
    by simp
qed

section \<open>Cached responses and the history\<close>

lemma home_step_entries:
  assumes "e \<in> set (history (home_step ev st))"
  shows "e \<in> set (history st)
       \<or> (\<exists>ok uuid d. ev = DataChanged ok uuid (Some d) \<and> \<not> r_cached d \<and> e = newEntry uuid d)"
proof (cases ev)
  case (DataChanged ok uuid data)
  show ?thesis
  proof (cases data)
    case None
    with DataChanged assms show ?thesis by (simp add: home_effect_def)
  next
    case (Some d)
    show ?thesis
    proof (cases "r_cached d")
      case True
      with DataChanged Some assms show ?thesis by (simp add: home_effect_def)
    next
      case False
      with DataChanged Some assms
      have "e = newEntry uuid d
          \<or> e \<in> set (take 19 (filter (\<lambda>entry. h_url entry \<noteq> h_url (newEntry uuid d)) (history st)))"
        by (simp add: home_effect_def addEntry_history)
      then have "e = newEntry uuid d \<or> e \<in> set (history st)"
        by (auto dest: in_set_takeD)
      with DataChanged Some False show ?thesis by blast
    qed
  qed
next
  case (RemoveClicked ok ident)
  with assms show ?thesis by (simp add: removeEntry_history)
next
  case (ClearClicked ok)
  with assms show ?thesis by (simp add: clearHistory_def)
qed

lemma home_run_entries:
  "e \<in> set (history (home_run evs st)) \<Longrightarrow>
     e \<in> set (history st)
   \<or> (\<exists>ok uuid d. DataChanged ok uuid (Some d) \<in> set evs \<and> \<not> r_cached d \<and> e = newEntry uuid d)"
proof (induction evs arbitrary: st)
  case Nil
  then show ?case by simp
next
  case (Cons ev evs)
  from Cons.prems have "e \<in> set (history (home_run evs (home_step ev st)))"
    by simp
  from Cons.IH [OF this] show ?case
  proof
    assume "e \<in> set (history (home_step ev st))"
    from home_step_entries [OF this] show ?thesis by auto
  next
    assume "\<exists>ok uuid d. DataChanged ok uuid (Some d) \<in> set evs \<and> \<not> r_cached d \<and> e = newEntry uuid d"
    then show ?thesis by auto
  qed
qed

text \<open>
  C9. A response with \<open>cached = true\<close> is never added to the history: the effect of the
  page leaves the store as it is on such a response, and after any sequence of events
  every entry of the history was there at the start or is the entry of a response with
  \<open>cached = false\<close> that the page received.
\<close>

theorem cached_never_recorded:
  "(r_cached c \<longrightarrow> home_step (DataChanged ok0 uuid0 (Some c)) st = st)
   \<and> (\<forall>e \<in> set (history (home_run evs st)).
         e \<in> set (history st)
       \<or> (\<exists>ok uuid d. DataChanged ok uuid (Some d) \<in> set evs \<and> \<not> r_cached d \<and> e = newEntry uuid d))"
  using home_run_entries by (simp add: home_effect_def)

theorem cached_never_recorded_witness:
  "r_cached (sample_response ''https://a.example'' (Some ''id-a'') True)
   \<and> home_step (DataChanged True ''u9'' (Some (sample_response ''https://a.example'' (Some ''id-a'') True)))
        \<lparr> history = [], stored = None \<rparr> = \<lparr> history = [], stored = None \<rparr>
   \<and> history (home_run
        [DataChanged True ''u8'' (Some (sample_response ''https://a.example'' (Some ''id-a'') True)),
         DataChanged True ''u9'' (Some (sample_response ''https://b.example'' None False))]
        \<lparr> history = [], stored = None \<rparr>)
      = [newEntry ''u9'' (sample_response ''https://b.example'' None False)]
   \<and> \<not> r_cached (sample_response ''https://b.example'' None False)"
  using cached_never_recorded [of "sample_response ''https://a.example'' (Some ''id-a'') True"
      True "''u9''" "\<lparr> history = [], stored = None \<rparr>"
      "[DataChanged True ''u8'' (Some (sample_response ''https://a.example'' (Some ''id-a'') True)),
        DataChanged True ''u9'' (Some (sample_response ''https://b.example'' None False))]"]
  by (simp add: home_effect_def addEntry_def saveHistory_def Let_def MAX_HISTORY_ITEMS_def
        sample_response_def)

section \<open>The frame of removeEntry\<close>

lemma count_list_filter:
  "count_list (filter P xs) x = (if P x then count_list xs x else 0)"
  by (induction xs) auto

text \<open>
  C10. \<open>removeEntry ident\<close> removes exactly the entries whose id is \<open>ident\<close>: no entry
  with that id is left, what is left is a subsequence of the old history (the same
  entries in the same relative order), and every entry with another id occurs as often
  as before.
\<close>

theorem removeEntry_frame:
  "(\<forall>e \<in> set (history (removeEntry ok ident st)). h_id e \<noteq> ident)
   \<and> subseq (history (removeEntry ok ident st)) (history st)
   \<and> (\<forall>e. h_id e \<noteq> ident \<longrightarrow>
         count_list (history (removeEntry ok ident st)) e = count_list (history st) e)"
  by (simp add: removeEntry_history count_list_filter)

theorem removeEntry_frame_witness:
  "newEntry ''u2'' (sample_response ''https://b.example'' None False)
     \<in> set (history (removeEntry True ''id-a'' sample_state))
   \<and> h_id (newEntry ''u2'' (sample_response ''https://b.example'' None False)) \<noteq> ''id-a''
   \<and> subseq (history (removeEntry True ''id-a'' sample_state)) (history sample_state)
   \<and> count_list (history (removeEntry True ''id-a'' sample_state))
        (newEntry ''u2'' (sample_response ''https://b.example'' None False)) = 1"
  using removeEntry_frame [of True "''id-a''" sample_state]
  by (simp add: removeEntry_history sample_state_def newEntry_def sample_response_def)

section \<open>The orchestrator\<close>

lemma fan_out_length: "length (fan_out u enabled) = length enabled"
  by (simp add: fan_out_def)

lemma fan_out_nth: "i < length enabled \<Longrightarrow> fan_out u enabled ! i = invoke u (enabled ! i)"
  by (simp add: fan_out_def)

lemma run_valid:
  "p_normalize p url = Inr u \<Longrightarrow>
     \<exists>res. run p stp url = Inr res \<and> r_analyzers res = fan_out u (p_enabled p) \<and> \<not> r_cached res
       \<and> r_score res = aggregate (p_config p) (fan_out u (p_enabled p))
       \<and> r_malicious res = malicious (p_config p) (r_score res) (p_lookup p u)"
  by (simp add: run_def Let_def score_def)

text \<open>
  C2. For a valid URL the run returns a result with exactly one AnalyzerResult per
  enabled analyzer, in the order of the analyzers, whatever the analyzers do: an analyzer
  that returns contributes what it returned, and one that raises, times out or returns
  malformed output contributes a record under its name with score 0, confidence 0 and
  the error set.
\<close>

theorem run_one_result_per_analyzer:
  assumes "p_normalize p url = Inr u"
  shows "\<exists>res. run p stp url = Inr res
       \<and> length (r_analyzers res) = length (p_enabled p)
       \<and> (\<forall>i < length (p_enabled p).
             case an_analyze (p_enabled p ! i) u of
               Returned r \<Rightarrow> r_analyzers res ! i = r
             | _ \<Rightarrow> a_name (r_analyzers res ! i) = an_name (p_enabled p ! i)
                   \<and> a_score (r_analyzers res ! i) = 0
                   \<and> a_confidence (r_analyzers res ! i) = 0
                   \<and> a_error (r_analyzers res ! i) \<noteq> None)"
proof -
  from run_valid [OF assms] obtain res where
    r: "run p stp url = Inr res" and a: "r_analyzers res = fan_out u (p_enabled p)"
    by blast
  have "case an_analyze (p_enabled p ! i) u of
               Returned r \<Rightarrow> r_analyzers res ! i = r
             | _ \<Rightarrow> a_name (r_analyzers res ! i) = an_name (p_enabled p ! i)
                   \<and> a_score (r_analyzers res ! i) = 0
                   \<and> a_confidence (r_analyzers res ! i) = 0
                   \<and> a_error (r_analyzers res ! i) \<noteq> None" if "i < length (p_enabled p)" for i
    using that by (simp add: a fan_out_nth invoke_def error_result_def split: outcome.split)
  with r a show ?thesis by (simp add: fan_out_length)
qed

theorem run_one_result_per_analyzer_witness:
  "p_normalize sample_pipeline ''https://example.com'' = Inr ''https://example.com''
   \<and> (\<exists>res. run sample_pipeline sample_stamp ''https://example.com'' = Inr res
        \<and> length (r_analyzers res) = 3
        \<and> r_analyzers res ! 0 = sample_result ''dns_resolver'' 20
        \<and> a_score (r_analyzers res ! 1) = 0 \<and> a_error (r_analyzers res ! 1) = Some ''timeout''
        \<and> a_score (r_analyzers res ! 2) = 0 \<and> a_confidence (r_analyzers res ! 2) = 0
        \<and> a_error (r_analyzers res ! 2) = Some ''boom'')"
proof -
  have h: "p_normalize sample_pipeline ''https://example.com'' = Inr ''https://example.com''"
    by (simp add: sample_pipeline_def sample_normalize_def)
  from run_one_result_per_analyzer [OF h, of sample_stamp] h show ?thesis
    by (simp add: run_def Let_def fan_out_def invoke_def error_result_def sample_pipeline_def sample_analyzers_def)
qed

section \<open>The verdict cache\<close>





section \<open>The scorer\<close>






section \<open>The verdict\<close>

text \<open>
  C5. When the feed lookup matched an indicator of high severity from a trusted source,
  the result of the run has \<open>malicious = true\<close>, whichever analyzers are enabled and
  whatever they return; they are all still run.
\<close>

theorem feed_hit_forces_malicious:
  assumes "p_normalize p url = Inr u" and "i \<in> set (p_lookup p u)"
      and "high_severity (i_severity i)" and "i_source i \<in> set (c_trusted (p_config p))"
  shows "\<forall>others. \<exists>res. run (p\<lparr>p_enabled := others\<rparr>) stp url = Inr res
           \<and> r_malicious res \<and> length (r_analyzers res) = length others"
proof
  fix others
  from assms(2,3,4) have "short_circuit (p_config p) (p_lookup p u)"
    by (auto simp: short_circuit_def list_ex_iff)
  with assms(1) show "\<exists>res. run (p\<lparr>p_enabled := others\<rparr>) stp url = Inr res
           \<and> r_malicious res \<and> length (r_analyzers res) = length others"
    by (simp add: run_def Let_def malicious_def fan_out_def)
qed

theorem feed_hit_forces_malicious_witness:
  "p_normalize sample_pipeline ''http://bad.example'' = Inr ''http://bad.example''
   \<and> sample_indicator \<in> set (p_lookup sample_pipeline ''http://bad.example'')
   \<and> high_severity (i_severity sample_indicator)
   \<and> i_source sample_indicator \<in> set (c_trusted (p_config sample_pipeline))
   \<and> (\<exists>res. run (sample_pipeline\<lparr>p_enabled := sample_analyzers\<rparr>) sample_stamp ''http://bad.example'' = Inr res
         \<and> r_malicious res \<and> r_score res = 11 \<and> length (r_analyzers res) = 3)"
proof -
  have h1: "p_normalize sample_pipeline ''http://bad.example'' = Inr ''http://bad.example''"
    by (simp add: sample_pipeline_def sample_normalize_def)
  have h2: "sample_indicator \<in> set (p_lookup sample_pipeline ''http://bad.example'')"
    by (simp add: sample_pipeline_def)
  have h3: "high_severity (i_severity sample_indicator)"
    by (simp add: high_severity_def sample_indicator_def)
  have h4: "i_source sample_indicator \<in> set (c_trusted (p_config sample_pipeline))"
    by (simp add: sample_pipeline_def sample_config_def sample_indicator_def)
  have v: "\<forall>res. run (sample_pipeline\<lparr>p_enabled := sample_analyzers\<rparr>) sample_stamp ''http://bad.example'' = Inr res
      \<longrightarrow> r_score res = 11 \<and> length (r_analyzers res) = 3"
    by (simp add: run_def Let_def sample_pipeline_def
          sample_normalize_def score_def aggregate_def weighted_sum_def consensus_def usable_def
          fan_out_def invoke_def error_result_def sample_analyzers_def sample_result_def sample_config_def)
  from feed_hit_forces_malicious [OF h1 h2 h3 h4, of sample_stamp] h1 h2 h3 h4 v
  show ?thesis by blast
qed



section \<open>Input errors\<close>

text \<open>
  C7. A request whose URL fails validation is answered with a client error and leaves
  the backend as it was: the pipeline is not executed and the answer does not depend on
  the analyzers. The error has a code, a message and a type; it is the same whatever the
  internal detail of the rejection, and the hook shows its message.
\<close>

theorem invalid_url_is_client_error:
  assumes "p_normalize p url = Inl detail"
  shows "\<exists>err. analyze_endpoint p stp now b url = (NotOk err, b)
       \<and> 400 \<le> e_code err \<and> e_code err < 500
       \<and> (\<forall>d. err = api_error_of (InputError d))
       \<and> (\<forall>others. analyze_endpoint (p\<lparr>p_enabled := others\<rparr>) stp now b url = (NotOk err, b))
       \<and> analyze (NotOk err) = \<lparr> data = None, loading = False, error = Some (e_message err) \<rparr>"
  using assms
  by (simp add: analyze_endpoint_def getOrCompute_def api_error_of_def analyze_def failed_def)

theorem invalid_url_is_client_error_witness:
  "p_normalize sample_pipeline ''ftp://example.com'' = Inl ''ValueError: not an http(s) URL''
   \<and> (\<exists>err. analyze_endpoint sample_pipeline sample_stamp 1000 empty_backend ''ftp://example.com''
               = (NotOk err, empty_backend)
         \<and> e_code err = 400
         \<and> analyze (NotOk err) = \<lparr> data = None, loading = False, error = Some ''Invalid URL'' \<rparr>)"
proof -
  have h: "p_normalize sample_pipeline ''ftp://example.com'' = Inl ''ValueError: not an http(s) URL''"
    by (simp add: sample_pipeline_def sample_normalize_def)
  from invalid_url_is_client_error [OF h, of sample_stamp 1000 empty_backend] h
  show ?thesis by (auto simp: api_error_of_def)
qed

end
